theory Spec2Isabelle
  imports Complex_Main "HOL-Library.Log_Nat"
begin

section \<open>Website analyzer: scoring rules and heuristic extraction\<close>

text \<open>
  Python values are modelled as follows: \<open>int\<close> as \<^typ>\<open>int\<close>, counts as \<^typ>\<open>nat\<close>,
  \<open>str\<close> as \<^typ>\<open>string\<close> whose characters are read as the code points U+0000 to U+00FF,
  a dictionary key that may be absent as an \<^typ>\<open>'a option\<close>, and a raised exception as
  the left injection of a sum.
\<close>

subsection \<open>utils/helpers.py: check_heading_hierarchy\<close>

text \<open>
  The loop \<^verbatim>\<open>for i in range(len(levels) - 1): if levels[i+1] - levels[i] > 1: return True\<close>
  walks the consecutive pairs from the left and stops at the first jump.
\<close>

fun skipped_level :: "int list \<Rightarrow> bool" where
  "skipped_level (a # b # rest) = (if b - a > 1 then True else skipped_level (b # rest))"
| "skipped_level _ = False"

definition check_heading_hierarchy :: "(int \<times> string) list \<Rightarrow> bool" where
  "check_heading_hierarchy headings =
     (if headings = [] then False
      else let levels = map fst headings in
        if 1 \<notin> set levels then True
        else skipped_level levels)"

subsection \<open>Strings\<close>

definition startswith :: "string \<Rightarrow> string \<Rightarrow> bool" where
  "startswith s p = (take (length p) s = p)"

fun contains :: "string \<Rightarrow> string \<Rightarrow> bool" where
  "contains [] p = (p = [])"
| "contains (c # cs) p = (startswith (c # cs) p \<or> contains cs p)"

definition ascii_lower :: "char \<Rightarrow> char" where
  "ascii_lower c =
     (case map_of (zip ''ABCDEFGHIJKLMNOPQRSTUVWXYZ'' ''abcdefghijklmnopqrstuvwxyz'') c of
        Some l \<Rightarrow> l | None \<Rightarrow> c)"

text \<open>
  The characters for which \<^verbatim>\<open>str.isspace\<close> holds, which are also those that the
  regular-expression class \<^verbatim>\<open>\s\<close> matches and that \<^verbatim>\<open>str.strip\<close> removes.
\<close>

definition is_space :: "char \<Rightarrow> bool" where
  "is_space c = ((of_char c :: nat) \<in> {9, 10, 11, 12, 13, 28, 29, 30, 31, 32, 133, 160})"

fun str_nat :: "nat \<Rightarrow> string" where
  "str_nat n = (if n < 10 then [''0123456789'' ! n]
                else str_nat (n div 10) @ [''0123456789'' ! (n mod 10)])"

definition str_int :: "int \<Rightarrow> string" where
  "str_int i = (if i < 0 then CHR ''-'' # str_nat (nat (- i)) else str_nat (nat i))"

definition get_default :: "'a option \<Rightarrow> 'a \<Rightarrow> 'a" where
  "get_default v d = (case v of Some x \<Rightarrow> x | None \<Rightarrow> d)"

subsection \<open>utils/helpers.py: extract_css_colors\<close>

definition is_digit :: "char \<Rightarrow> bool" where
  "is_digit c = (c \<in> set ''0123456789'')"

definition is_alpha :: "char \<Rightarrow> bool" where
  "is_alpha c = (c \<in> set ''abcdefghijklmnopqrstuvwxyzABCDEFGHIJKLMNOPQRSTUVWXYZ'')"

text \<open>The character class \<^verbatim>\<open>[#0-9a-zA-Z(,)\s\.]\<close>.\<close>

definition color_char :: "char \<Rightarrow> bool" where
  "color_char c = (c = CHR ''#'' \<or> is_digit c \<or> is_alpha c \<or> c = CHR ''(''
     \<or> c = CHR '','' \<or> c = CHR '')'' \<or> is_space c \<or> c = CHR ''.'')"

definition strip :: "string \<Rightarrow> string" where
  "strip s = rev (dropWhile is_space (rev (dropWhile is_space s)))"

text \<open>
  The matchers below give, for a pattern and a string, the match that starts at the first
  character of the string, if there is one: the text of the group that the caller reads
  and the length of the match.

  \<^verbatim>\<open>\s*([#0-9a-zA-Z(,)\s\.]+)\<close>: the white space is skipped and the group is the longest
  run of class characters; when no class character follows the white space, the group is
  the last white-space character, which the class matches too.
\<close>

definition value_match :: "string \<Rightarrow> (string \<times> nat) option" where
  "value_match s =
     (let w = takeWhile is_space s;
          k = takeWhile color_char (drop (length w) s)
      in if k \<noteq> [] then Some (k, length w + length k)
         else if w \<noteq> [] then Some ([last w], length w)
         else None)"

text \<open>\<^verbatim>\<open>\s*([a-zA-Z]+)\<close>.\<close>

definition letters_match :: "string \<Rightarrow> (string \<times> nat) option" where
  "letters_match s =
     (let w = takeWhile is_space s;
          k = takeWhile is_alpha (drop (length w) s)
      in if k \<noteq> [] then Some (k, length w + length k) else None)"

text \<open>A matcher \<open>m\<close> applied after \<open>n\<close> characters that a prefix of the pattern consumed.\<close>

definition after :: "nat \<Rightarrow> (string \<Rightarrow> (string \<times> nat) option) \<Rightarrow> string
    \<Rightarrow> (string \<times> nat) option" where
  "after n m s = (case m (drop n s) of None \<Rightarrow> None | Some (g, l) \<Rightarrow> Some (g, n + l))"

text \<open>\<^verbatim>\<open>background(-color)?:\<close> followed by one of the two value patterns.\<close>

definition background_match ::
  "(string \<Rightarrow> (string \<times> nat) option) \<Rightarrow> string \<Rightarrow> (string \<times> nat) option" where
  "background_match m s =
     (if startswith s ''background-color:'' then after 17 m s
      else if startswith s ''background:'' then after 11 m s
      else None)"

text \<open>\<^verbatim>\<open>color:\s*([#0-9a-zA-Z(,)\s\.]+)\<close>.\<close>

definition color_match :: "string \<Rightarrow> (string \<times> nat) option" where
  "color_match s = (if startswith s ''color:'' then after 6 value_match s else None)"

text \<open>
  \<^verbatim>\<open>[^}]*color:\s*([#0-9a-zA-Z(,)\s\.]+)\<close> inside a span without \<^verbatim>\<open>}\<close>: the greedy
  \<^verbatim>\<open>[^}]*\<close> gives way until the rest matches, which selects the last declaration of
  the span that matches.
\<close>

fun last_color_match :: "string \<Rightarrow> (string \<times> nat) option" where
  "last_color_match [] = None"
| "last_color_match (c # cs) =
     (case last_color_match cs of
        Some (g, l) \<Rightarrow> Some (g, Suc l)
      | None \<Rightarrow> color_match (c # cs))"

text \<open>\<^verbatim>\<open>\s*{[^}]*color:\s*([#0-9a-zA-Z(,)\s\.]+)\<close>.\<close>

definition block_match :: "string \<Rightarrow> (string \<times> nat) option" where
  "block_match s =
     (let w = takeWhile is_space s in
      case drop (length w) s of
        [] \<Rightarrow> None
      | c # rest \<Rightarrow>
          if c = CHR ''{''
          then after (Suc (length w)) last_color_match
                 (take (Suc (length w)) s @ takeWhile (\<lambda>c. c \<noteq> CHR ''}'') rest)
          else None)"

text \<open>\<^verbatim>\<open>a\s*{...\<close> and \<^verbatim>\<open>a:link\s*{...\<close>.\<close>

definition link_match :: "string \<Rightarrow> string \<Rightarrow> (string \<times> nat) option" where
  "link_match selector s =
     (if startswith s selector then after (length selector) block_match s else None)"

text \<open>
  \<^verbatim>\<open>re.finditer\<close> (and \<^verbatim>\<open>re.findall\<close> with one group): the groups of the matches from
  left to right, the scan resuming where a match ended. The first argument counts the
  characters still covered by the last match; no pattern here matches the empty string.
\<close>

fun finditer :: "(string \<Rightarrow> (string \<times> nat) option) \<Rightarrow> nat \<Rightarrow> string \<Rightarrow> string list" where
  "finditer m skip [] = []"
| "finditer m skip (c # cs) =
     (if skip > 0 then finditer m (skip - 1) cs
      else case m (c # cs) of
          Some (g, n) \<Rightarrow> g # finditer m (n - 1) cs
        | None \<Rightarrow> finditer m 0 cs)"

record css_colors =
  background_colors :: "string list"
  text_colors :: "string list"
  link_colors :: "string list"

definition background_patterns :: "(string \<Rightarrow> (string \<times> nat) option) list" where
  "background_patterns = [background_match value_match, background_match letters_match]"

definition text_patterns :: "(string \<Rightarrow> (string \<times> nat) option) list" where
  "text_patterns = [color_match]"

definition link_patterns :: "(string \<Rightarrow> (string \<times> nat) option) list" where
  "link_patterns = [link_match ''a'', link_match ''a:link'']"

text \<open>
  \<^verbatim>\<open>list(set(xs))\<close> keeps one copy of each entry, in an order that Python leaves open;
  \<^const>\<open>remdups\<close> fixes one such order.
\<close>

definition extract_css_colors :: "string \<Rightarrow> css_colors" where
  "extract_css_colors css_content =
     (let matches = (\<lambda>patterns. map strip
            (concat (map (\<lambda>pattern. finditer pattern 0 css_content) patterns)));
          background = filter (\<lambda>color. color \<noteq> [] \<and> color \<noteq> ''transparent''
              \<and> color \<noteq> ''inherit'' \<and> color \<noteq> ''initial'') (matches background_patterns);
          text = filter (\<lambda>color. color \<noteq> [] \<and> color \<noteq> ''inherit'' \<and> color \<noteq> ''initial'')
              (matches text_patterns);
          link = filter (\<lambda>color. color \<noteq> [] \<and> color \<noteq> ''inherit'' \<and> color \<noteq> ''initial'')
              (matches link_patterns)
      in \<lparr> background_colors = remdups background, text_colors = remdups text,
           link_colors = remdups link \<rparr>)"

subsection \<open>Python floats\<close>

text \<open>
  A Python \<open>float\<close> is an IEEE 754 binary64 value: a finite double (given by its exact
  real value), an infinity (\<open>Inf True\<close> is the positive one) or a NaN. The sign of zero is
  not kept: no operation used here tells the two zeros apart. Every operation rounds the
  exact result to the nearest double, ties to even.
\<close>

datatype py_error = ValueError | OverflowError | ZeroDivisionError | TypeError

datatype pyfloat = Fin (fin_value: real) | Inf bool | NaN

definition round_half_even :: "real \<Rightarrow> int" where
  "round_half_even x = (let f = \<lfloor>x\<rfloor>; d = x - of_int f in
     if d < 1/2 then f else if d > 1/2 then f + 1 else if even f then f else f + 1)"

text \<open>The exponent \<open>e\<close> with \<open>2\<^sup>e \<le> x < 2\<^sup>e\<^sup>+\<^sup>1\<close>, for \<open>x > 0\<close>.\<close>

definition ilog2 :: "real \<Rightarrow> int" where
  "ilog2 x = (if x \<ge> 1 then int (floorlog 2 (nat \<lfloor>x\<rfloor>)) - 1
              else - int (floorlog 2 (nat (\<lceil>1 / x\<rceil> - 1))))"

text \<open>
  Rounding to binary64: 53 significant bits, the exponent of the last place not below
  \<open>-1074\<close> (subnormal numbers), overflow to an infinity from \<open>2\<^sup>1\<^sup>0\<^sup>2\<^sup>4\<close> on.
\<close>

definition fl :: "real \<Rightarrow> pyfloat" where
  "fl x = (if x = 0 then Fin 0
      else let e = max (ilog2 \<bar>x\<bar>) (- 1022);
               u = 2 powi (e - 52);
               y = of_int (round_half_even (x / u)) * u
           in if \<bar>y\<bar> \<ge> 2 powi 1024 then Inf (x > 0) else Fin y)"

fun float_add :: "pyfloat \<Rightarrow> pyfloat \<Rightarrow> pyfloat" where
  "float_add (Fin a) (Fin b) = fl (a + b)"
| "float_add NaN y = NaN"
| "float_add x NaN = NaN"
| "float_add (Inf s) (Inf t) = (if s = t then Inf s else NaN)"
| "float_add (Inf s) (Fin b) = Inf s"
| "float_add (Fin a) (Inf t) = Inf t"

fun float_mul :: "pyfloat \<Rightarrow> pyfloat \<Rightarrow> pyfloat" where
  "float_mul (Fin a) (Fin b) = fl (a * b)"
| "float_mul NaN y = NaN"
| "float_mul x NaN = NaN"
| "float_mul (Inf s) (Inf t) = Inf (s = t)"
| "float_mul (Inf s) (Fin b) = (if b = 0 then NaN else Inf (s = (b > 0)))"
| "float_mul (Fin a) (Inf t) = (if a = 0 then NaN else Inf (t = (a > 0)))"

text \<open>\<^verbatim>\<open>x / y\<close> on floats raises \<^verbatim>\<open>ZeroDivisionError\<close> when \<open>y\<close> is zero.\<close>

fun float_truediv :: "pyfloat \<Rightarrow> pyfloat \<Rightarrow> py_error + pyfloat" where
  "float_truediv (Fin a) (Fin b) = (if b = 0 then Inl ZeroDivisionError else Inr (fl (a / b)))"
| "float_truediv NaN (Fin b) = (if b = 0 then Inl ZeroDivisionError else Inr NaN)"
| "float_truediv (Inf s) (Fin b) =
     (if b = 0 then Inl ZeroDivisionError else Inr (Inf (s = (b > 0))))"
| "float_truediv (Fin a) (Inf t) = Inr (Fin 0)"
| "float_truediv (Inf s) (Inf t) = Inr NaN"
| "float_truediv NaN (Inf t) = Inr NaN"
| "float_truediv x NaN = Inr NaN"

fun float_gt :: "pyfloat \<Rightarrow> pyfloat \<Rightarrow> bool" where
  "float_gt (Fin a) (Fin b) = (a > b)"
| "float_gt NaN y = False"
| "float_gt x NaN = False"
| "float_gt (Inf s) (Inf t) = (s \<and> \<not> t)"
| "float_gt (Inf s) (Fin b) = s"
| "float_gt (Fin a) (Inf t) = (\<not> t)"

fun float_eq :: "pyfloat \<Rightarrow> pyfloat \<Rightarrow> bool" where
  "float_eq (Fin a) (Fin b) = (a = b)"
| "float_eq (Inf s) (Inf t) = (s = t)"
| "float_eq x y = False"

definition float_lt :: "pyfloat \<Rightarrow> pyfloat \<Rightarrow> bool" where
  "float_lt x y = float_gt y x"

definition float_ge :: "pyfloat \<Rightarrow> pyfloat \<Rightarrow> bool" where
  "float_ge x y = (float_gt x y \<or> float_eq x y)"

definition float_le :: "pyfloat \<Rightarrow> pyfloat \<Rightarrow> bool" where
  "float_le x y = float_ge y x"

text \<open>
  \<^verbatim>\<open>float(n)\<close> for an \<open>int\<close>, as in mixed arithmetic: \<^verbatim>\<open>OverflowError\<close> when \<open>n\<close> is
  beyond the doubles. A comparison of an \<open>int\<close> with a \<open>float\<close> is exact instead: there the
  \<open>int\<close> \<open>n\<close> stands as \<open>Fin (of_int n)\<close>.
\<close>

definition float_of_int :: "int \<Rightarrow> py_error + pyfloat" where
  "float_of_int n = (case fl (of_int n) of Fin y \<Rightarrow> Inr (Fin y) | _ \<Rightarrow> Inl OverflowError)"

text \<open>
  \<^verbatim>\<open>a / b\<close> on two \<open>int\<close>s: the quotient, correctly rounded; \<^verbatim>\<open>OverflowError\<close> when it
  is beyond the doubles.
\<close>

definition int_truediv :: "int \<Rightarrow> int \<Rightarrow> py_error + pyfloat" where
  "int_truediv a b =
     (if b = 0 then Inl ZeroDivisionError
      else case fl (of_int a / of_int b) of Fin y \<Rightarrow> Inr (Fin y) | _ \<Rightarrow> Inl OverflowError)"

text \<open>
  \<^verbatim>\<open>round(x, 1)\<close>: the exact value of \<open>x\<close> rounded to one decimal, ties to even, and the
  double nearest to that decimal; an infinity or a NaN is returned as it is.
\<close>

fun round1 :: "pyfloat \<Rightarrow> pyfloat" where
  "round1 (Fin x) = fl (of_int (round_half_even (x * 10)) / 10)"
| "round1 x = x"

subsection \<open>utils/helpers.py: calculate_contrast_ratio\<close>

text \<open>
  \<^verbatim>\<open>int(s, 16)\<close>: white space around the literal is dropped, then come an optional sign, an
  optional \<^verbatim>\<open>0x\<close> (after which one underscore may stand) and hexadecimal digits, single
  underscores allowed between digits; anything else raises \<^verbatim>\<open>ValueError\<close>.
\<close>

definition int_space :: "char \<Rightarrow> bool" where
  "int_space c = ((of_char c :: nat) \<in> {9, 10, 11, 12, 13, 32, 133, 160})"

definition hex_value :: "char \<Rightarrow> nat option" where
  "hex_value c =
     map_of (zip ''0123456789abcdef'' [0, 1, 2, 3, 4, 5, 6, 7, 8, 9, 10, 11, 12, 13, 14, 15])
       (ascii_lower c)"

fun hex_digits :: "string \<Rightarrow> bool \<Rightarrow> nat \<Rightarrow> nat option" where
  "hex_digits [] after_digit acc = (if after_digit then Some acc else None)"
| "hex_digits (c # cs) after_digit acc =
     (if c = CHR ''_'' then (if after_digit then hex_digits cs False acc else None)
      else case hex_value c of
          Some d \<Rightarrow> hex_digits cs True (16 * acc + d)
        | None \<Rightarrow> None)"

definition int16 :: "string \<Rightarrow> py_error + int" where
  "int16 s =
     (let s1 = rev (dropWhile int_space (rev (dropWhile int_space s)));
          negative = (take 1 s1 = ''-'');
          s2 = (if take 1 s1 = ''+'' \<or> take 1 s1 = ''-'' then drop 1 s1 else s1);
          s3 = (if take 2 s2 = ''0x'' \<or> take 2 s2 = ''0X''
                then (if take 1 (drop 2 s2) = ''_'' then drop 3 s2 else drop 2 s2)
                else s2)
      in case hex_digits s3 False 0 of
           None \<Rightarrow> Inl ValueError
         | Some n \<Rightarrow> Inr (if negative then - int n else int n))"

text \<open>
  \<^verbatim>\<open>int(s)\<close> on a group of \<^verbatim>\<open>\d+\<close>, which holds decimal digits only. The interpreter
  (3.11, with its default \<^verbatim>\<open>sys.int_info.default_max_str_digits\<close> of 4300) raises
  \<^verbatim>\<open>ValueError\<close> on a string of more than 4300 digits, leading zeros counted; base 16 has
  no such limit.
\<close>

definition max_str_digits :: nat where
  "max_str_digits = 4300"

definition digit_value :: "char \<Rightarrow> nat" where
  "digit_value c = get_default (map_of (zip ''0123456789'' [0, 1, 2, 3, 4, 5, 6, 7, 8, 9]) c) 0"

definition int10 :: "string \<Rightarrow> py_error + int" where
  "int10 s =
     (if length s > max_str_digits then Inl ValueError
      else Inr (int (foldl (\<lambda>acc c. 10 * acc + digit_value c) 0 s)))"

text \<open>\<^verbatim>\<open>\s*(\d+)\s*\<close> followed by the character \<open>stop\<close>: the digits and what follows the stop.\<close>

definition number_then :: "char \<Rightarrow> string \<Rightarrow> (string \<times> string) option" where
  "number_then stop s =
     (let s1 = dropWhile is_space s;
          d = takeWhile is_digit s1;
          s2 = dropWhile is_space (drop (length d) s1)
      in if d = [] then None
         else case s2 of [] \<Rightarrow> None
              | c # rest \<Rightarrow> if c = stop then Some (d, rest) else None)"

text \<open>\<^verbatim>\<open>rgb\(\s*(\d+)\s*,\s*(\d+)\s*,\s*(\d+)\s*\)\<close> at the start of a string, and searched.\<close>

definition rgb_match :: "string \<Rightarrow> (string \<times> string \<times> string) option" where
  "rgb_match s =
     (if \<not> startswith s ''rgb('' then None
      else case number_then CHR '','' (drop 4 s) of None \<Rightarrow> None
        | Some (r, s1) \<Rightarrow>
           (case number_then CHR '','' s1 of None \<Rightarrow> None
            | Some (g, s2) \<Rightarrow>
               (case number_then CHR '')'' s2 of None \<Rightarrow> None
                | Some (b, s3) \<Rightarrow> Some (r, g, b))))"

fun rgb_search :: "string \<Rightarrow> (string \<times> string \<times> string) option" where
  "rgb_search [] = None"
| "rgb_search (c # cs) =
     (case rgb_match (c # cs) of Some m \<Rightarrow> Some m | None \<Rightarrow> rgb_search cs)"

text \<open>\<^verbatim>\<open>n / 255.0\<close> for an \<open>int\<close> \<open>n\<close>.\<close>

definition channel :: "int \<Rightarrow> py_error + pyfloat" where
  "channel n = (case float_of_int n of Inl e \<Rightarrow> Inl e
                 | Inr x \<Rightarrow> float_truediv x (Fin 255))"

text \<open>Three channels, evaluated in order; the first exception ends the evaluation.\<close>

definition channels3 ::
  "(py_error + int) \<Rightarrow> (py_error + int) \<Rightarrow> (py_error + int)
     \<Rightarrow> py_error + pyfloat \<times> pyfloat \<times> pyfloat" where
  "channels3 ri gi bi =
     (case ri of Inl e \<Rightarrow> Inl e | Inr rn \<Rightarrow>
      (case channel rn of Inl e \<Rightarrow> Inl e | Inr r \<Rightarrow>
       (case gi of Inl e \<Rightarrow> Inl e | Inr gn \<Rightarrow>
        (case channel gn of Inl e \<Rightarrow> Inl e | Inr g \<Rightarrow>
         (case bi of Inl e \<Rightarrow> Inl e | Inr bn \<Rightarrow>
          (case channel bn of Inl e \<Rightarrow> Inl e | Inr b \<Rightarrow> Inr (r, g, b)))))))"

definition parse_color :: "string \<Rightarrow> py_error + pyfloat \<times> pyfloat \<times> pyfloat" where
  "parse_color color0 =
     (if startswith color0 ''#'' then
        (let color = drop 1 color0 in
         channels3 (int16 (take 2 color)) (int16 (take 2 (drop 2 color)))
           (int16 (take 2 (drop 4 color))))
      else case (if startswith color0 ''rgb'' then rgb_search color0 else None) of
          Some (r, g, b) \<Rightarrow> channels3 (int10 r) (int10 g) (int10 b)
        | None \<Rightarrow> Inr (Fin 0, Fin 0, Fin 0))"

text \<open>
  \<^verbatim>\<open>v ** w\<close> for a finite exponent \<open>w > 0\<close> that is not an integer (the program has
  \<^verbatim>\<open>** 2.4\<close> only). The interpreter answers the bases NaN, infinity, zero and one by itself
  and otherwise calls the C library's \<^verbatim>\<open>pow\<close>, taken here as correctly rounded; a result
  beyond the doubles raises \<^verbatim>\<open>OverflowError\<close>. A negative base, which \<open>adjust_color_value\<close>
  never passes, gives a complex number on which the later comparison of the luminances
  raises \<^verbatim>\<open>TypeError\<close>.
\<close>

definition float_pow :: "pyfloat \<Rightarrow> real \<Rightarrow> py_error + pyfloat" where
  "float_pow v w =
     (case v of
        NaN \<Rightarrow> Inr NaN
      | Inf s \<Rightarrow> Inr (Inf True)
      | Fin a \<Rightarrow>
          if a = 0 then Inr (Fin 0)
          else if a < 0 then Inl TypeError
          else if a = 1 then Inr (Fin 1)
          else (case fl (a powr w) of Inf s \<Rightarrow> Inl OverflowError | y \<Rightarrow> Inr y))"

text \<open>The value of a float literal: the decimal, rounded.\<close>

definition literal :: "real \<Rightarrow> pyfloat" where
  "literal x = fl x"

definition adjust_color_value :: "pyfloat \<Rightarrow> py_error + pyfloat" where
  "adjust_color_value v =
     (if float_le v (literal (3928 / 100000)) then float_truediv v (literal (1292 / 100))
      else case float_truediv (float_add v (literal (55 / 1000))) (literal (1055 / 1000)) of
          Inl e \<Rightarrow> Inl e
        | Inr base \<Rightarrow> float_pow base (fin_value (literal (24 / 10))))"

definition get_luminance :: "pyfloat \<Rightarrow> pyfloat \<Rightarrow> pyfloat \<Rightarrow> py_error + pyfloat" where
  "get_luminance r0 g0 b0 =
     (case adjust_color_value r0 of Inl e \<Rightarrow> Inl e | Inr r \<Rightarrow>
      (case adjust_color_value g0 of Inl e \<Rightarrow> Inl e | Inr g \<Rightarrow>
       (case adjust_color_value b0 of Inl e \<Rightarrow> Inl e | Inr b \<Rightarrow>
          Inr (float_add
                 (float_add (float_mul (literal (2126 / 10000)) r)
                            (float_mul (literal (7152 / 10000)) g))
                 (float_mul (literal (722 / 10000)) b)))))"

definition calculate_contrast_ratio :: "string \<Rightarrow> string \<Rightarrow> py_error + pyfloat" where
  "calculate_contrast_ratio color1 color2 =
     (case parse_color color1 of Inl e \<Rightarrow> Inl e | Inr (r1, g1, b1) \<Rightarrow>
      (case parse_color color2 of Inl e \<Rightarrow> Inl e | Inr (r2, g2, b2) \<Rightarrow>
       (case get_luminance r1 g1 b1 of Inl e \<Rightarrow> Inl e | Inr l1 \<Rightarrow>
        (case get_luminance r2 g2 b2 of Inl e \<Rightarrow> Inl e | Inr l2 \<Rightarrow>
           if float_gt l1 l2
           then float_truediv (float_add l1 (literal (5 / 100))) (float_add l2 (literal (5 / 100)))
           else float_truediv (float_add l2 (literal (5 / 100)))
                              (float_add l1 (literal (5 / 100)))))))"






subsection \<open>The parsed document\<close>

text \<open>
  The tree that the HTML parser hands to the analyzers: a tag has a name, a dictionary of
  attributes and a list of children; text is a leaf. The attributes read below
  (\<^verbatim>\<open>alt\<close>, \<^verbatim>\<open>role\<close>, \<^verbatim>\<open>summary\<close>, \<^verbatim>\<open>href\<close>, \<^verbatim>\<open>src\<close>, ...) are single-valued strings.
\<close>

datatype node = Tag string "string \<rightharpoonup> string" "node list" | NavigableString string

fun descendants :: "node \<Rightarrow> node list" where
  "descendants (Tag n a cs) = concat (map (\<lambda>c. c # descendants c) cs)"
| "descendants (NavigableString s) = []"

fun is_tag :: "node \<Rightarrow> bool" where
  "is_tag (Tag n a cs) = True"
| "is_tag (NavigableString s) = False"

fun name :: "node \<Rightarrow> string" where
  "name (Tag n a cs) = n"
| "name (NavigableString s) = []"

fun get :: "node \<Rightarrow> string \<Rightarrow> string option" where
  "get (Tag n a cs) k = a k"
| "get (NavigableString s) k = None"

text \<open>\<^verbatim>\<open>element[k]\<close>; every use below is on an element selected for having \<open>k\<close>.\<close>

definition getitem :: "node \<Rightarrow> string \<Rightarrow> string" where
  "getitem e k = get_default (get e k) []"

text \<open>\<^verbatim>\<open>tag.string\<close>: the text of a tag whose only child is text, looked up through single children.\<close>

fun tag_string :: "node \<Rightarrow> string option" where
  "tag_string (Tag n a [c]) = tag_string c"
| "tag_string (Tag n a cs) = None"
| "tag_string (NavigableString s) = Some s"

definition find_all :: "node \<Rightarrow> (node \<Rightarrow> bool) \<Rightarrow> node list" where
  "find_all t p = filter (\<lambda>e. is_tag e \<and> p e) (descendants t)"

definition find_first :: "node \<Rightarrow> (node \<Rightarrow> bool) \<Rightarrow> node option" where
  "find_first t p = (case find_all t p of [] \<Rightarrow> None | e # _ \<Rightarrow> Some e)"

definition named :: "string \<Rightarrow> node \<Rightarrow> bool" where
  "named n e = (name e = n)"

definition has_attr :: "string \<Rightarrow> node \<Rightarrow> bool" where
  "has_attr k e = (get e k \<noteq> None)"

definition attr_is :: "string \<Rightarrow> string \<Rightarrow> node \<Rightarrow> bool" where
  "attr_is k v e = (get e k = Some v)"

definition attr_matches :: "string \<Rightarrow> (string \<Rightarrow> bool) \<Rightarrow> node \<Rightarrow> bool" where
  "attr_matches k re e = (case get e k of None \<Rightarrow> False | Some v \<Rightarrow> re v)"

subsection \<open>modules/security.py: SecurityAnalyzer\<close>

text \<open>
  The dictionary \<^verbatim>\<open>self.security\<close> is a record whose fields are \<open>None\<close> until a check
  writes them. Left out are the values that no score reads and that need the network or
  a serializer: the certificate's fields, the protocol version, the headers' percentage
  and \<^verbatim>\<open>has_unsafe_inline\<close>. The URL is given by its parsed scheme, the response headers
  by a map from lower-cased names (the HTTP client's dictionary ignores case), and the
  TLS handshake by its outcome.
\<close>

record xss_vector =
  xss_element :: string
  xss_attribute :: string
  xss_value :: string

record mixed_item =
  mixed_tag :: string
  mixed_attribute :: string
  mixed_url :: string

record mixed_content_info =
  mixed_status :: string
  mixed_items :: "mixed_item list option"
  mixed_count :: "nat option"

record form_desc =
  form_action :: string
  form_method :: string
  form_issues :: "string list"

record form_security =
  forms_total :: nat
  with_csrf_protection :: nat
  with_https :: nat
  with_autocomplete_off :: nat
  insecure_forms :: "form_desc list"

record security =
  headers :: "(string \<times> string) list option"
  missing_security_headers :: "nat option"
  present_security_headers :: "nat option"
  https_enabled :: "bool option"
  ssl_issues :: "string list option"
  ssl_error :: "string option"
  ssl_days_to_expiry :: "int option"
  ssl_expires_soon :: "bool option"
  inline_scripts :: "nat option"
  potential_xss_vectors :: "xss_vector list option"
  xss_risk :: "bool option"
  mixed_content :: "mixed_content_info option"
  forms :: "form_security option"
  score :: "int option"
  max_score :: "int option"
  deductions :: "string list option"
  rating :: "string option"

definition empty_security :: security where
  "empty_security = \<lparr> headers = None, missing_security_headers = None,
     present_security_headers = None, https_enabled = None, ssl_issues = None,
     ssl_error = None, ssl_days_to_expiry = None, ssl_expires_soon = None,
     inline_scripts = None, potential_xss_vectors = None, xss_risk = None,
     mixed_content = None, forms = None, score = None, max_score = None,
     deductions = None, rating = None \<rparr>"

definition headers_get :: "(string \<rightharpoonup> string) \<Rightarrow> string \<Rightarrow> string \<Rightarrow> string" where
  "headers_get h k d = get_default (h (map ascii_lower k)) d"

definition check_security_headers :: "(string \<rightharpoonup> string) \<Rightarrow> security \<Rightarrow> security" where
  "check_security_headers h sec =
     (let security_headers =
        [(''Strict-Transport-Security'', headers_get h ''Strict-Transport-Security'' ''Missing''),
         (''Content-Security-Policy'', headers_get h ''Content-Security-Policy'' ''Missing''),
         (''X-Content-Type-Options'', headers_get h ''X-Content-Type-Options'' ''Missing''),
         (''X-Frame-Options'', headers_get h ''X-Frame-Options'' ''Missing''),
         (''X-XSS-Protection'', headers_get h ''X-XSS-Protection'' ''Missing''),
         (''Referrer-Policy'', headers_get h ''Referrer-Policy'' ''Missing''),
         (''Permissions-Policy'',
            headers_get h ''Permissions-Policy'' (headers_get h ''Feature-Policy'' ''Missing''))];
          missing_headers = length (filter (\<lambda>v. v = ''Missing'') (map snd security_headers));
          present_headers = length security_headers - missing_headers
      in sec\<lparr> headers := Some security_headers,
              missing_security_headers := Some missing_headers,
              present_security_headers := Some present_headers \<rparr>)"

datatype tls_result = Certificate int | TlsError string

definition check_ssl_tls :: "string \<Rightarrow> tls_result \<Rightarrow> security \<Rightarrow> security" where
  "check_ssl_tls scheme tls sec0 =
     (let sec = sec0\<lparr> https_enabled := Some (scheme = ''https'') \<rparr> in
      if \<not> get_default (https_enabled sec) False
      then sec\<lparr> ssl_issues := Some [''HTTPS not enabled''] \<rparr>
      else (case tls of
          Certificate days_to_expiry \<Rightarrow>
            sec\<lparr> ssl_days_to_expiry := Some days_to_expiry,
                 ssl_expires_soon := Some (days_to_expiry < 30),
                 ssl_issues := Some (if days_to_expiry < 30
                    then [''Certificate expires soon ('' @ str_int days_to_expiry @ '' days)'']
                    else []) \<rparr>
        | TlsError e \<Rightarrow>
            sec\<lparr> ssl_error := Some e, ssl_issues := Some [''Error analyzing SSL: '' @ e] \<rparr>))"

definition risky_attrs :: "string list" where
  "risky_attrs = [''onclick'', ''onload'', ''onmouseover'', ''onerror'', ''onkeyup'', ''onsubmit'']"

text \<open>\<^verbatim>\<open>re.compile(r'^javascript:', re.I)\<close>, searched in an attribute's value.\<close>

definition javascript_re :: "string \<Rightarrow> bool" where
  "javascript_re v = (map ascii_lower (take 11 v) = ''javascript:'')"

definition check_content_security :: "node \<Rightarrow> security \<Rightarrow> security" where
  "check_content_security soup sec =
     (let inline = find_all soup (\<lambda>e. named ''script'' e \<and> \<not> has_attr ''src'' e);
          handler_vectors = concat (map (\<lambda>attr.
              map (\<lambda>element. \<lparr> xss_element = name element, xss_attribute = attr,
                                xss_value = take 100 (getitem element attr) \<rparr>)
                  (take 5 (find_all soup (has_attr attr)))) risky_attrs);
          js_links = find_all soup (\<lambda>e. named ''a'' e \<and> attr_matches ''href'' javascript_re e);
          link_vectors = map (\<lambda>link. \<lparr> xss_element = ''a'', xss_attribute = ''href'',
                                xss_value = take 100 (getitem link ''href'') \<rparr>) (take 5 js_links);
          vectors = handler_vectors @ link_vectors
      in sec\<lparr> inline_scripts := Some (length inline),
              potential_xss_vectors := Some vectors,
              xss_risk := Some (length vectors > 0) \<rparr>)"

text \<open>\<^verbatim>\<open>re.compile(r'^http://', re.I)\<close>.\<close>

definition http_re :: "string \<Rightarrow> bool" where
  "http_re v = (map ascii_lower (take 7 v) = ''http://'')"

definition mixed_sources :: "(string \<times> string) list" where
  "mixed_sources = [(''img'', ''src''), (''script'', ''src''), (''link'', ''href''),
     (''iframe'', ''src''), (''object'', ''data''), (''source'', ''src''),
     (''audio'', ''src''), (''video'', ''src'')]"

definition is_quote :: "char \<Rightarrow> bool" where
  "is_quote c = (c = CHR 0x27 \<or> c = CHR 0x22)"

definition opt_quote :: "string \<Rightarrow> string" where
  "opt_quote s = (case s of [] \<Rightarrow> [] | c # cs \<Rightarrow> if is_quote c then cs else c # cs)"

text \<open>
  A match of \<^verbatim>\<open>url\(\s*['"]?(http://[^'")]+)['"]?\s*\)\<close> (ignoring case) at the start
  of \<open>s\<close>: the group and the length of the match. Every quantified part is followed by
  something it cannot itself match, so the greedy match is the only one.
\<close>

definition url_match :: "string \<Rightarrow> (string \<times> nat) option" where
  "url_match s =
     (if map ascii_lower (take 4 s) \<noteq> ''url('' then None
      else let s1 = opt_quote (dropWhile is_space (drop 4 s)) in
        if \<not> http_re s1 then None
        else let run = takeWhile (\<lambda>c. \<not> is_quote c \<and> c \<noteq> CHR '')'') (drop 7 s1);
                 s2 = dropWhile is_space (opt_quote (drop (7 + length run) s1))
             in if run = [] then None
                else (case s2 of
                    [] \<Rightarrow> None
                  | c # rest \<Rightarrow> if c = CHR '')''
                      then Some (take 7 s1 @ run, length s - length rest) else None))"

definition check_mixed_content :: "node \<Rightarrow> security \<Rightarrow> security" where
  "check_mixed_content soup sec =
     (if \<not> get_default (https_enabled sec) False
      then sec\<lparr> mixed_content := Some \<lparr> mixed_status = ''N/A - not using HTTPS'',
                mixed_items = None, mixed_count = None \<rparr> \<rparr>
      else let tag_items = concat (map (\<lambda>(tag_name, attr_name).
                 map (\<lambda>element. \<lparr> mixed_tag = tag_name, mixed_attribute = attr_name,
                                   mixed_url = take 100 (getitem element attr_name) \<rparr>)
                   (take 3 (find_all soup
                      (\<lambda>e. named tag_name e \<and> attr_matches attr_name http_re e))))
                 mixed_sources);
               style_items = concat (map (\<lambda>style.
                 (case tag_string style of
                    None \<Rightarrow> []
                  | Some text \<Rightarrow>
                      map (\<lambda>url. \<lparr> mixed_tag = ''style'', mixed_attribute = ''url()'',
                                    mixed_url = take 100 url \<rparr>)
                          (take 3 (finditer url_match 0 text))))
                 (find_all soup (named ''style'')));
               items = tag_items @ style_items
           in sec\<lparr> mixed_content := Some \<lparr>
                mixed_status = (if items \<noteq> [] then ''Issues found'' else ''No issues''),
                mixed_items = Some items, mixed_count = Some (length items) \<rparr> \<rparr>)"

text \<open>\<^verbatim>\<open>re.compile(r'csrf|token|_token|xsrf', re.I)\<close>, searched in an attribute's value.\<close>

definition csrf_re :: "string \<Rightarrow> bool" where
  "csrf_re v = (let l = map ascii_lower v in
     contains l ''csrf'' \<or> contains l ''token'' \<or> contains l ''_token'' \<or> contains l ''xsrf'')"

text \<open>The body of the loop over the forms.\<close>

definition check_form :: "bool \<Rightarrow> node \<Rightarrow> form_security \<Rightarrow> form_security" where
  "check_form https form fs =
     (let action = get_default (get form ''action'') [];
          bad_action = (action \<noteq> [] \<and> startswith action ''http:'');
          no_action = (\<not> bad_action \<and> action = [] \<and> \<not> https);
          issues1 = (if bad_action then [''Form submits to HTTP URL'']
                     else if no_action then [''Form on non-HTTPS page without specific action'']
                     else []);
          fs1 = (if bad_action \<or> no_action then fs else fs\<lparr> with_https := with_https fs + 1 \<rparr>);
          csrf_fields = find_all form (\<lambda>e. named ''input'' e \<and> attr_is ''type'' ''hidden'' e
                                          \<and> attr_matches ''name'' csrf_re e);
          has_csrf = (csrf_fields \<noteq> []);
          fs2 = (if has_csrf then fs1\<lparr> with_csrf_protection := with_csrf_protection fs1 + 1 \<rparr>
                 else fs1);
          issues2 = (if has_csrf then issues1 else issues1 @ [''No CSRF protection detected'']);
          autocomplete_off = (get form ''autocomplete'' = Some ''off'');
          password_fields = find_all form (\<lambda>e. named ''input'' e \<and> attr_is ''type'' ''password'' e);
          password_with_autocomplete_off =
            filter (\<lambda>field. get field ''autocomplete'' = Some ''off'') password_fields;
          counted = (autocomplete_off \<or> (password_fields \<noteq> []
              \<and> length password_with_autocomplete_off = length password_fields));
          exposed = (\<not> counted \<and> password_fields \<noteq> []);
          fs3 = (if counted then fs2\<lparr> with_autocomplete_off := with_autocomplete_off fs2 + 1 \<rparr>
                 else fs2);
          issues3 = (if exposed then issues2 @ [''Password fields without autocomplete=off'']
                     else issues2);
          is_secure = (\<not> (bad_action \<or> no_action) \<and> has_csrf \<and> \<not> exposed)
      in if \<not> is_secure
         then fs3\<lparr> insecure_forms := insecure_forms fs3 @
                [\<lparr> form_action = action, form_method = get_default (get form ''method'') ''GET'',
                   form_issues = issues3 \<rparr>] \<rparr>
         else fs3)"

definition check_form_security :: "node \<Rightarrow> security \<Rightarrow> security" where
  "check_form_security soup sec =
     (let form_list = find_all soup (named ''form'');
          form_security0 = \<lparr> forms_total = length form_list, with_csrf_protection = 0,
             with_https = 0, with_autocomplete_off = 0, insecure_forms = [] \<rparr>
      in sec\<lparr> forms := Some (foldl
           (\<lambda>fs form. check_form (get_default (https_enabled sec) False) form fs)
           form_security0 form_list) \<rparr>)"

text \<open>\<^verbatim>\<open>min(n * per, cap)\<close> for a count \<open>n\<close>.\<close>

definition capped :: "nat \<Rightarrow> int \<Rightarrow> int \<Rightarrow> int" where
  "capped n per cap = min (int n * per) cap"

definition calculate_security_score :: "security \<Rightarrow> security" where
  "calculate_security_score sec =
     (let score0 = (100 :: int);
          missing_headers = get_default (missing_security_headers sec) 0;
          header_deduction = capped missing_headers 10 40;
          score1 = (if missing_headers > 0 then score0 - header_deduction else score0);
          d1 = (if missing_headers > 0
                then [''Missing security headers: -'' @ str_int header_deduction] else []);
          no_https = (\<not> get_default (https_enabled sec) False);
          score2 = (if no_https then score1 - 50 else score1);
          d2 = (if no_https then d1 @ [''No HTTPS: -50''] else d1);
          issues = get_default (ssl_issues sec) [];
          ssl_deduction = capped (length issues) 10 30;
          score3 = (if issues \<noteq> [] then score2 - ssl_deduction else score2);
          d3 = (if issues \<noteq> [] then d2 @ [''SSL issues: -'' @ str_int ssl_deduction] else d2);
          xss_vectors = length (get_default (potential_xss_vectors sec) []);
          xss_deduction = capped xss_vectors 5 25;
          score4 = (if xss_vectors > 0 then score3 - xss_deduction else score3);
          d4 = (if xss_vectors > 0
                then d3 @ [''Potential XSS vectors: -'' @ str_int xss_deduction] else d3);
          mixed_content_count =
            (case mixed_content sec of None \<Rightarrow> 0 | Some m \<Rightarrow> get_default (mixed_count m) 0);
          mixed_deduction = capped mixed_content_count 3 15;
          score5 = (if mixed_content_count > 0 then score4 - mixed_deduction else score4);
          d5 = (if mixed_content_count > 0
                then d4 @ [''Mixed content: -'' @ str_int mixed_deduction] else d4);
          insecure =
            length (case forms sec of None \<Rightarrow> [] | Some f \<Rightarrow> insecure_forms f);
          form_deduction = capped insecure 10 30;
          score6 = (if insecure > 0 then score5 - form_deduction else score5);
          d6 = (if insecure > 0
                then d5 @ [''Insecure forms: -'' @ str_int form_deduction] else d5);
          rating_word = (if score6 \<ge> 90 then ''Excellent''
                    else if score6 \<ge> 75 then ''Good''
                    else if score6 \<ge> 50 then ''Fair''
                    else if score6 \<ge> 25 then ''Poor''
                    else ''Very Poor'')
      in sec\<lparr> score := Some (max 0 score6), max_score := Some 100,
              deductions := Some d6, rating := Some rating_word \<rparr>)"

text \<open>\<^verbatim>\<open>SecurityAnalyzer.analyze\<close>, from the empty dictionary of the constructor.\<close>

definition security_analyze ::
  "node \<Rightarrow> (string \<rightharpoonup> string) \<Rightarrow> string \<Rightarrow> tls_result \<Rightarrow> security" where
  "security_analyze soup response_headers scheme tls =
     calculate_security_score
       (check_form_security soup
         (check_mixed_content soup
           (check_content_security soup
             (check_ssl_tls scheme tls
               (check_security_headers response_headers empty_security)))))"

text \<open>
  The document of the end-to-end scenario:
  \<^verbatim>\<open><html lang="en"><head><title>T</title></head><body><img src="a.jpg"></body></html>\<close>.
\<close>

definition minimal_document :: node where
  "minimal_document =
     Tag ''[document]'' Map.empty
       [Tag ''html'' [''lang'' \<mapsto> ''en'']
          [Tag ''head'' Map.empty [Tag ''title'' Map.empty [NavigableString ''T'']],
           Tag ''body'' Map.empty [Tag ''img'' [''src'' \<mapsto> ''a.jpg''] []]]]"

subsection \<open>modules/accessibility.py: AccessibilityAnalyzer\<close>

text \<open>The image census of \<^verbatim>\<open>check_screen_reader_support\<close>.\<close>

record images_analysis =
  images_total :: nat
  with_alt :: nat
  with_empty_alt :: nat
  without_alt :: nat
  decorative_properly_marked :: nat

definition check_screen_reader_support_images :: "node \<Rightarrow> images_analysis" where
  "check_screen_reader_support_images soup =
     (let images = find_all soup (named ''img'') in
      \<lparr> images_total = length images,
        with_alt = length (filter (\<lambda>img. get img ''alt'' \<noteq> None) images),
        with_empty_alt = length (filter (\<lambda>img. get img ''alt'' = Some []) images),
        without_alt = length (filter (\<lambda>img. get img ''alt'' = None) images),
        decorative_properly_marked = length (filter
          (\<lambda>img. get img ''alt'' = Some [] \<and> get img ''role'' = Some ''presentation'') images) \<rparr>)"

record table_analysis =
  tables_total :: nat
  with_headers :: nat
  with_caption :: nat
  with_summary :: nat
  data_tables :: nat
  layout_tables :: nat

text \<open>The body of the loop of \<^verbatim>\<open>_analyze_tables\<close>; an attribute is truthy when it is a non-empty string.\<close>

definition analyze_table :: "node \<Rightarrow> table_analysis \<Rightarrow> table_analysis" where
  "analyze_table table ta0 =
     (let ta1 = (if find_first table (named ''th'') \<noteq> None
                 then ta0\<lparr> with_headers := with_headers ta0 + 1 \<rparr> else ta0);
          ta2 = (if find_first table (named ''caption'') \<noteq> None
                 then ta1\<lparr> with_caption := with_caption ta1 + 1 \<rparr> else ta1);
          ta3 = (if get_default (get table ''summary'') [] \<noteq> []
                 then ta2\<lparr> with_summary := with_summary ta2 + 1 \<rparr> else ta2)
      in if find_first table (named ''th'') \<noteq> None \<or> get table ''role'' = Some ''table''
         then ta3\<lparr> data_tables := data_tables ta3 + 1 \<rparr>
         else ta3\<lparr> layout_tables := layout_tables ta3 + 1 \<rparr>)"

definition analyze_tables :: "node \<Rightarrow> table_analysis" where
  "analyze_tables soup =
     (let tables = find_all soup (named ''table'') in
      foldl (\<lambda>ta table. analyze_table table ta)
        \<lparr> tables_total = length tables, with_headers = 0, with_caption = 0, with_summary = 0,
          data_tables = 0, layout_tables = 0 \<rparr> tables)"

text \<open>
  What \<^verbatim>\<open>check_wcag_compliance\<close> reads from the accessibility dictionary, written there by
  the checks that run before it; \<^verbatim>\<open>has_issues\<close> is read with \<^verbatim>\<open>.get("has_issues", True)\<close>.
\<close>

record accessibility =
  lang_attribute :: string
  heading_hierarchy_issues :: bool
  images :: images_analysis
  total_inputs :: nat
  inputs_with_labels :: nat
  has_issues :: "bool option"
  tabindex_issues :: "string list"

record wcag_level =
  level_score :: int
  level_total :: int
  level_percentage :: pyfloat
  level_passed :: bool

record wcag_compliance =
  level_a :: wcag_level
  level_aa :: wcag_level

text \<open>\<^verbatim>\<open>round((score / total) * 100, 1)\<close> and \<^verbatim>\<open>score >= total * 0.8\<close>.\<close>

definition percentage_of :: "int \<Rightarrow> int \<Rightarrow> py_error + pyfloat" where
  "percentage_of s t =
     (case int_truediv s t of Inl e \<Rightarrow> Inl e
      | Inr q \<Rightarrow> Inr (round1 (float_mul q (Fin 100))))"

definition passes :: "int \<Rightarrow> int \<Rightarrow> py_error + bool" where
  "passes s t =
     (case float_of_int t of Inl e \<Rightarrow> Inl e
      | Inr tf \<Rightarrow> Inr (float_ge (Fin (of_int s)) (float_mul tf (fl (8 / 10)))))"

definition wcag_level_of :: "int \<Rightarrow> int \<Rightarrow> py_error + wcag_level" where
  "wcag_level_of s t =
     (case percentage_of s t of Inl e \<Rightarrow> Inl e
      | Inr p \<Rightarrow> (case passes s t of Inl e \<Rightarrow> Inl e
          | Inr ok \<Rightarrow> Inr \<lparr> level_score = s, level_total = t, level_percentage = p,
                            level_passed = ok \<rparr>))"

definition check_wcag_compliance :: "accessibility \<Rightarrow> py_error + wcag_compliance" where
  "check_wcag_compliance acc =
     (let level_a_total = 10;
          s1 = (if lang_attribute acc \<noteq> ''Missing'' then 1 else 0);
          s2 = (if without_alt (images acc) = 0 then s1 + 1 else s1);
          s3 = (if \<not> heading_hierarchy_issues acc then s2 + 1 else s2);
          s4 = (if total_inputs acc > 0 \<and> inputs_with_labels acc = total_inputs acc
                then s3 + 1 else s3);
          level_a_score = s4 + 6
      in case wcag_level_of level_a_score level_a_total of Inl e \<Rightarrow> Inl e
         | Inr a \<Rightarrow>
            (let level_aa_total = 15;
                 t1 = (if \<not> get_default (has_issues acc) True
                       then level_a_score + 1 else level_a_score);
                 t2 = (if length (tabindex_issues acc) = 0 then t1 + 1 else t1);
                 level_aa_score = t2 + 2
             in case wcag_level_of level_aa_score level_aa_total of Inl e \<Rightarrow> Inl e
                | Inr aa \<Rightarrow> Inr \<lparr> level_a = a, level_aa = aa \<rparr>))"

subsection \<open>core/analyzer.py: WebsiteAnalyzer\<close>

text \<open>
  What \<^verbatim>\<open>_calculate_scores\<close> reads from the result tree with \<^verbatim>\<open>safe_get(..., 0)\<close>: the
  value at \<^verbatim>\<open>performance.loading.total_load_time\<close>, at
  \<^verbatim>\<open>performance.loading.response_size_mb\<close>, at
  \<^verbatim>\<open>accessibility.wcag_compliance.level_aa.percentage\<close> and at \<^verbatim>\<open>security.score\<close>, each
  \<open>None\<close> when the path does not exist. The first three are floats (an \<open>int\<close> default \<open>0\<close>
  compares and multiplies as the float zero), the security score is an \<open>int\<close>.
\<close>

record results =
  total_load_time :: "pyfloat option"
  response_size_mb :: "pyfloat option"
  level_aa_percentage :: "pyfloat option"
  security_score :: "int option"

record scores =
  performance :: int
  accessibility_score :: pyfloat
  security :: int
  overall :: pyfloat

definition calculate_scores :: "results \<Rightarrow> py_error + scores" where
  "calculate_scores r =
     (let perf_score0 = (100 :: int);
          load_time = get_default (total_load_time r) (Fin 0);
          perf_score1 = (if float_gt load_time (Fin 3) then perf_score0 - 30
                         else if float_gt load_time (Fin 2) then perf_score0 - 15
                         else if float_gt load_time (Fin 1) then perf_score0 - 5
                         else perf_score0);
          size_mb = get_default (response_size_mb r) (Fin 0);
          perf_score2 = (if float_gt size_mb (Fin 2) then perf_score1 - 20
                         else if float_gt size_mb (Fin 1) then perf_score1 - 10
                         else perf_score1);
          perf = max 0 perf_score2;
          acc_score = get_default (level_aa_percentage r) (Fin 0);
          sec = get_default (security_score r) 0
      in case float_of_int perf of Inl e \<Rightarrow> Inl e
         | Inr pf \<Rightarrow>
            (case float_of_int sec of Inl e \<Rightarrow> Inl e
             | Inr sf \<Rightarrow>
                Inr \<lparr> performance = perf, accessibility_score = acc_score, security = sec,
                      overall = round1 (float_add
                         (float_add (float_mul pf (fl (4 / 10))) (float_mul acc_score (fl (4 / 10))))
                         (float_mul sf (fl (2 / 10)))) \<rparr>))"

definition slow_page_results :: results where
  "slow_page_results = \<lparr> total_load_time = Some (fl (25 / 10)),
     response_size_mb = Some (fl (15 / 10)), level_aa_percentage = Some (fl (667 / 10)),
     security_score = Some 50 \<rparr>"

text \<open>Two inputs on which the properties below are evaluated.\<close>

definition two_tables_document :: node where
  "two_tables_document =
     Tag ''[document]'' Map.empty
       [Tag ''table'' Map.empty
          [Tag ''tr'' Map.empty [Tag ''th'' Map.empty [NavigableString ''Name'']]],
        Tag ''table'' [''role'' \<mapsto> ''presentation'']
          [Tag ''tr'' Map.empty [Tag ''td'' Map.empty [NavigableString ''x'']]]]"

definition minimal_accessibility :: accessibility where
  "minimal_accessibility =
     \<lparr> lang_attribute = ''en'', heading_hierarchy_issues = False,
       images = check_screen_reader_support_images minimal_document,
       total_inputs = 0, inputs_with_labels = 0, has_issues = Some False,
       tabindex_issues = [] \<rparr>"

section \<open>Properties\<close>

text \<open>The rules that evaluate a rounding on given numbers.\<close>

lemmas float_eval = fl_def ilog2_def compute_floorlog round_half_even_def Let_def
  power_int_def power_one_over

subsection \<open>Heading hierarchy\<close>

lemma skipped_level_iff:
  "skipped_level ls \<longleftrightarrow> (\<exists>i. Suc i < length ls \<and> ls ! Suc i - ls ! i > 1)"
proof (induction ls rule: skipped_level.induct)
  case (1 a b rest)
  show ?case
  proof (cases "b - a > 1")
    case True
    then have "Suc 0 < length (a # b # rest) \<and> (a # b # rest) ! Suc 0 - (a # b # rest) ! 0 > 1"
      by simp
    then have "\<exists>i. Suc i < length (a # b # rest) \<and> (a # b # rest) ! Suc i - (a # b # rest) ! i > 1"
      by blast
    with True show ?thesis by simp
  next
    case False
    have "(\<exists>i. Suc i < length (a # b # rest) \<and> (a # b # rest) ! Suc i - (a # b # rest) ! i > 1)
          \<longleftrightarrow> (\<exists>i. Suc i < length (b # rest) \<and> (b # rest) ! Suc i - (b # rest) ! i > 1)"
      (is "?L \<longleftrightarrow> ?R")
    proof
      assume ?L
      then obtain i where i: "Suc i < length (a # b # rest)"
        "(a # b # rest) ! Suc i - (a # b # rest) ! i > 1" by blast
      show ?R
      proof (cases i)
        case 0
        with i False show ?thesis by simp
      next
        case (Suc j)
        with i have "Suc j < length (b # rest) \<and> (b # rest) ! Suc j - (b # rest) ! j > 1"
          by simp
        then show ?thesis by blast
      qed
    next
      assume ?R
      then obtain j where "Suc j < length (b # rest)" "(b # rest) ! Suc j - (b # rest) ! j > 1"
        by blast
      then have "Suc (Suc j) < length (a # b # rest)
          \<and> (a # b # rest) ! Suc (Suc j) - (a # b # rest) ! Suc j > 1"
        by simp
      then show ?L by blast
    qed
    with False 1 show ?thesis by simp
  qed
qed simp_all

text \<open>
  C5. For every finite sequence of (level, text) headings, \<open>check_heading_hierarchy\<close>
  returns true if and only if the sequence is non-empty and either no level-1 heading
  exists anywhere in it or some consecutive pair increases the level by more than 1.
  In particular the empty sequence returns false, and a sequence that has a level-1
  heading and whose consecutive steps never rise by more than 1 (decreasing or repeated
  levels included) is not flagged.
\<close>

theorem check_heading_hierarchy_iff:
  "(check_heading_hierarchy hs \<longleftrightarrow>
      hs \<noteq> [] \<and> (1 \<notin> fst ` set hs
        \<or> (\<exists>i. Suc i < length hs \<and> fst (hs ! Suc i) - fst (hs ! i) > 1)))
   \<and> \<not> check_heading_hierarchy []
   \<and> (1 \<in> fst ` set hs \<and> (\<forall>i. Suc i < length hs \<longrightarrow> fst (hs ! Suc i) \<le> fst (hs ! i) + 1)
        \<longrightarrow> \<not> check_heading_hierarchy hs)"
proof -
  have idx: "(\<exists>i. Suc i < length (map fst hs) \<and> map fst hs ! Suc i - map fst hs ! i > 1)
      \<longleftrightarrow> (\<exists>i. Suc i < length hs \<and> fst (hs ! Suc i) - fst (hs ! i) > 1)"
    by (metis (no_types, lifting) Suc_lessD length_map nth_map)
  have main: "check_heading_hierarchy hs \<longleftrightarrow>
      hs \<noteq> [] \<and> (1 \<notin> fst ` set hs
        \<or> (\<exists>i. Suc i < length hs \<and> fst (hs ! Suc i) - fst (hs ! i) > 1))"
    unfolding check_heading_hierarchy_def Let_def skipped_level_iff idx by auto
  have empty: "\<not> check_heading_hierarchy []"
    by (simp add: check_heading_hierarchy_def)
  have smooth: "1 \<in> fst ` set hs \<and> (\<forall>i. Suc i < length hs \<longrightarrow> fst (hs ! Suc i) \<le> fst (hs ! i) + 1)
        \<longrightarrow> \<not> check_heading_hierarchy hs"
    unfolding main by (auto simp: not_less)
  from main empty smooth show ?thesis by blast
qed

theorem check_heading_hierarchy_iff_witness:
  "check_heading_hierarchy [(1, ''a''), (3, ''b'')]
   \<and> check_heading_hierarchy [(2, ''x'')]
   \<and> \<not> check_heading_hierarchy [(1, ''a''), (2, ''b''), (3, ''c''), (3, ''d''), (1, ''e'')]"
proof -
  have skip: "Suc 0 < length [(1::int, ''a''), (3, ''b'')]
      \<and> fst ([(1::int, ''a''), (3, ''b'')] ! Suc 0) - fst ([(1::int, ''a''), (3, ''b'')] ! 0) > 1"
    by simp
  have a: "check_heading_hierarchy [(1, ''a''), (3, ''b'')]"
    using check_heading_hierarchy_iff [of "[(1, ''a''), (3, ''b'')]"] skip by blast
  have b: "check_heading_hierarchy [(2, ''x'')]"
    using check_heading_hierarchy_iff [of "[(2, ''x'')]"] by simp
  have steps: "\<forall>i. Suc i < length [(1::int, ''a''), (2, ''b''), (3, ''c''), (3, ''d''), (1, ''e'')]
      \<longrightarrow> fst ([(1::int, ''a''), (2, ''b''), (3, ''c''), (3, ''d''), (1, ''e'')] ! Suc i)
          \<le> fst ([(1::int, ''a''), (2, ''b''), (3, ''c''), (3, ''d''), (1, ''e'')] ! i) + 1"
    by (simp add: nth_Cons' less_Suc_eq)
  have one: "1 \<in> fst ` set [(1::int, ''a''), (2, ''b''), (3, ''c''), (3, ''d''), (1, ''e'')]"
    by simp
  have c: "\<not> check_heading_hierarchy [(1, ''a''), (2, ''b''), (3, ''c''), (3, ''d''), (1, ''e'')]"
    using check_heading_hierarchy_iff
      [of "[(1, ''a''), (2, ''b''), (3, ''c''), (3, ''d''), (1, ''e'')]"] steps one
    by blast
  from a b c show ?thesis by blast
qed

subsection \<open>Security score\<close>

lemma capped_nonneg: "0 \<le> per \<Longrightarrow> 0 \<le> cap \<Longrightarrow> 0 \<le> capped n per cap"
  by (simp add: capped_def)

lemma capped_zero: "capped 0 per cap = min 0 cap"
  by (simp add: capped_def)

lemma score_capped:
  "score (calculate_security_score sec) =
     Some (max 0 (100 - capped (get_default (missing_security_headers sec) 0) 10 40
       - (if get_default (https_enabled sec) False then 0 else 50)
       - capped (length (get_default (ssl_issues sec) [])) 10 30
       - capped (length (get_default (potential_xss_vectors sec) [])) 5 25
       - capped (case mixed_content sec of None \<Rightarrow> 0
                 | Some m \<Rightarrow> get_default (mixed_count m) 0) 3 15
       - capped (length (case forms sec of None \<Rightarrow> []
                 | Some f \<Rightarrow> insecure_forms f)) 10 30))"
  unfolding calculate_security_score_def Let_def by (simp add: capped_zero)

text \<open>
  C4. For every state of the security dictionary, the stored score is 100 minus the
  independently capped deductions (missing headers times 10 capped at 40, a flat 50 when
  HTTPS is not enabled, SSL issues times 10 capped at 30, XSS vectors times 5 capped at 25,
  mixed-content items times 3 capped at 15, insecure forms times 10 capped at 30), floored
  at 0; so the stored score is never below 0 (nor above 100).
\<close>

theorem security_score_formula:
  "score (calculate_security_score sec) =
     Some (max 0 (100
       - min (int (get_default (missing_security_headers sec) 0) * 10) 40
       - (if get_default (https_enabled sec) False then 0 else 50)
       - min (int (length (get_default (ssl_issues sec) [])) * 10) 30
       - min (int (length (get_default (potential_xss_vectors sec) [])) * 5) 25
       - min (int (case mixed_content sec of None \<Rightarrow> 0
                    | Some m \<Rightarrow> get_default (mixed_count m) 0) * 3) 15
       - min (int (length (case forms sec of None \<Rightarrow> []
                    | Some f \<Rightarrow> insecure_forms f)) * 10) 30))
   \<and> (\<exists>s. score (calculate_security_score sec) = Some s \<and> 0 \<le> s \<and> s \<le> 100)"
proof -
  have nn: "0 \<le> capped (get_default (missing_security_headers sec) 0) 10 40"
    "0 \<le> capped (length (get_default (ssl_issues sec) [])) 10 30"
    "0 \<le> capped (length (get_default (potential_xss_vectors sec) [])) 5 25"
    "0 \<le> capped (case mixed_content sec of None \<Rightarrow> 0
                 | Some m \<Rightarrow> get_default (mixed_count m) 0) 3 15"
    "0 \<le> capped (length (case forms sec of None \<Rightarrow> []
                 | Some f \<Rightarrow> insecure_forms f)) 10 30"
    by (simp_all add: capped_nonneg)
  have bounded: "\<exists>s. score (calculate_security_score sec) = Some s \<and> 0 \<le> s \<and> s \<le> 100"
    unfolding score_capped using nn by auto
  have formula: "score (calculate_security_score sec) =
     Some (max 0 (100
       - min (int (get_default (missing_security_headers sec) 0) * 10) 40
       - (if get_default (https_enabled sec) False then 0 else 50)
       - min (int (length (get_default (ssl_issues sec) [])) * 10) 30
       - min (int (length (get_default (potential_xss_vectors sec) [])) * 5) 25
       - min (int (case mixed_content sec of None \<Rightarrow> 0
                    | Some m \<Rightarrow> get_default (mixed_count m) 0) * 3) 15
       - min (int (length (case forms sec of None \<Rightarrow> []
                    | Some f \<Rightarrow> insecure_forms f)) * 10) 30))"
    unfolding score_capped by (simp add: capped_def)
  from formula bounded show ?thesis by blast
qed

text \<open>
  The raw deductions of this state are 40 + 50 + 10 + 5 = 105; the stored score is 0.
\<close>

theorem security_score_formula_witness:
  "score (calculate_security_score (empty_security\<lparr> missing_security_headers := Some 7,
       https_enabled := Some False, ssl_issues := Some [''HTTPS not enabled''],
       potential_xss_vectors := Some [\<lparr> xss_element = ''img'', xss_attribute = ''onerror'',
          xss_value = ''f()'' \<rparr>] \<rparr>)) = Some 0"
  using security_score_formula [of "empty_security\<lparr> missing_security_headers := Some 7,
       https_enabled := Some False, ssl_issues := Some [''HTTPS not enabled''],
       potential_xss_vectors := Some [\<lparr> xss_element = ''img'', xss_attribute = ''onerror'',
          xss_value = ''f()'' \<rparr>] \<rparr>"]
  by (simp add: empty_security_def get_default_def)

subsection \<open>The end-to-end scenario over plain HTTP\<close>

lemma headers_missing:
  assumes "\<forall>k \<in> set [''Strict-Transport-Security'', ''Content-Security-Policy'',
      ''X-Content-Type-Options'', ''X-Frame-Options'', ''X-XSS-Protection'',
      ''Referrer-Policy'', ''Permissions-Policy'', ''Feature-Policy'']. h (map ascii_lower k) = None"
  shows "missing_security_headers (check_security_headers h sec) = Some 7"
  using assms by (simp add: check_security_headers_def headers_get_def get_default_def)

lemma plain_http_state:
  assumes "scheme \<noteq> ''https''"
  shows "https_enabled (check_ssl_tls scheme tls sec) = Some False"
    and "ssl_issues (check_ssl_tls scheme tls sec) = Some [''HTTPS not enabled'']"
    and "missing_security_headers (check_ssl_tls scheme tls sec) = missing_security_headers sec"
  using assms by (simp_all add: check_ssl_tls_def get_default_def)

lemma later_checks_keep:
  "https_enabled (check_form_security soup (check_mixed_content soup (check_content_security soup sec)))
     = https_enabled sec"
  "ssl_issues (check_form_security soup (check_mixed_content soup (check_content_security soup sec)))
     = ssl_issues sec"
  "missing_security_headers
     (check_form_security soup (check_mixed_content soup (check_content_security soup sec)))
     = missing_security_headers sec"
  by (simp_all add: check_form_security_def check_mixed_content_def check_content_security_def
      Let_def)

text \<open>
  C1, as stated, fails: for the minimal document served over plain HTTP with no security
  header, the computed security score is not 50.
\<close>

theorem minimal_scenario_score_not_50:
  "score (security_analyze minimal_document Map.empty ''http'' (TlsError [])) \<noteq> Some 50"
  by (simp add: security_analyze_def minimal_document_def check_security_headers_def
      check_ssl_tls_def check_content_security_def check_mixed_content_def
      check_form_security_def calculate_security_score_def empty_security_def
      headers_get_def get_default_def find_all_def risky_attrs_def has_attr_def named_def
      attr_matches_def capped_def Let_def)

text \<open>
  C1, amended. For a page fetched over a scheme other than \<open>https\<close> whose response carries
  none of the seven security headers (nor \<open>Feature-Policy\<close>), the computed security score
  is 0, whatever the document holds: 40 is deducted for the missing headers, 50 for the
  missing HTTPS and 10 for the one SSL issue \<open>HTTPS not enabled\<close> that the TLS check
  records on such a page.
\<close>

theorem security_score_plain_http:
  assumes "scheme \<noteq> ''https''"
    and "\<forall>k \<in> set [''Strict-Transport-Security'', ''Content-Security-Policy'',
      ''X-Content-Type-Options'', ''X-Frame-Options'', ''X-XSS-Protection'',
      ''Referrer-Policy'', ''Permissions-Policy'', ''Feature-Policy'']. h (map ascii_lower k) = None"
  shows "score (security_analyze soup h scheme tls) = Some 0"
proof -
  define sec where "sec = check_form_security soup (check_mixed_content soup
      (check_content_security soup (check_ssl_tls scheme tls
        (check_security_headers h empty_security))))"
  have m: "missing_security_headers sec = Some 7"
    unfolding sec_def later_checks_keep plain_http_state(3) [OF assms(1)]
    by (rule headers_missing [OF assms(2)])
  have s: "https_enabled sec = Some False" "ssl_issues sec = Some [''HTTPS not enabled'']"
    unfolding sec_def later_checks_keep by (simp_all add: plain_http_state [OF assms(1)])
  have nn: "0 \<le> capped (length (get_default (potential_xss_vectors sec) [])) 5 25"
    "0 \<le> capped (case mixed_content sec of None \<Rightarrow> 0
                 | Some m \<Rightarrow> get_default (mixed_count m) 0) 3 15"
    "0 \<le> capped (length (case forms sec of None \<Rightarrow> []
                 | Some f \<Rightarrow> insecure_forms f)) 10 30"
    by (simp_all add: capped_nonneg)
  have "score (calculate_security_score sec) = Some 0"
    unfolding score_capped m s using nn by (simp add: get_default_def capped_def)
  then show ?thesis by (simp add: security_analyze_def sec_def)
qed

theorem security_score_plain_http_witness:
  "score (security_analyze minimal_document Map.empty ''http'' (TlsError [])) = Some 0"
  using security_score_plain_http [of "''http''" Map.empty minimal_document "TlsError []"]
  by simp

subsection \<open>WCAG levels\<close>

lemma passes_10: "passes s 10 = Inr (8 \<le> s)"
proof -
  have "float_mul (Fin 10) (fl (8 / 10)) = Fin 8"
    by (simp add: float_eval)
  moreover have "float_of_int 10 = Inr (Fin 10)"
    by (simp add: float_of_int_def float_eval)
  ultimately show ?thesis
    by (auto simp add: passes_def float_ge_def)
qed

lemma passes_15: "passes s 15 = Inr (12 \<le> s)"
proof -
  have "float_mul (Fin 15) (fl (8 / 10)) = Fin 12"
    by (simp add: float_eval)
  moreover have "float_of_int 15 = Inr (Fin 15)"
    by (simp add: float_of_int_def float_eval)
  ultimately show ?thesis
    by (auto simp add: passes_def float_ge_def)
qed

lemma percentage_of_10:
  "percentage_of 6 10 = Inr (Fin 60)" "percentage_of 7 10 = Inr (Fin 70)"
  "percentage_of 8 10 = Inr (Fin 80)" "percentage_of 9 10 = Inr (Fin 90)"
  "percentage_of 10 10 = Inr (Fin 100)"
  by (simp_all add: percentage_of_def int_truediv_def float_eval)

lemma percentage_of_15:
  "percentage_of 8 15 = Inr (fl (533 / 10))" "percentage_of 9 15 = Inr (Fin 60)"
  "percentage_of 10 15 = Inr (fl (667 / 10))" "percentage_of 11 15 = Inr (fl (733 / 10))"
  "percentage_of 12 15 = Inr (Fin 80)" "percentage_of 13 15 = Inr (fl (867 / 10))"
  "percentage_of 14 15 = Inr (fl (933 / 10))"
  by (simp_all add: percentage_of_def int_truediv_def float_eval)

lemma wcag_level_10:
  assumes "s \<in> {6, 7, 8, 9, 10}"
  shows "\<exists>p. wcag_level_of s 10 = Inr \<lparr> level_score = s, level_total = 10,
      level_percentage = p, level_passed = (8 \<le> s) \<rparr>"
  using assms by (auto simp add: wcag_level_of_def passes_10 percentage_of_10)

lemma wcag_level_15:
  assumes "s \<in> {8, 9, 10, 11, 12, 13, 14}"
  shows "\<exists>p. wcag_level_of s 15 = Inr \<lparr> level_score = s, level_total = 15,
      level_percentage = p, level_passed = (12 \<le> s) \<rparr>"
  using assms by (auto simp add: wcag_level_of_def passes_15 percentage_of_15)

text \<open>
  C3. \<open>check_wcag_compliance\<close> returns (it raises nothing), and: the Level A score is one
  point for each of: lang attribute not \<open>Missing\<close>, zero images without alt, no
  heading-hierarchy issues, and (\<open>total_inputs > 0\<close> and \<open>inputs_with_labels = total_inputs\<close>),
  plus a constant 6; its total is 10 and it is passed exactly when the score is at least 8.
  The Level AA score is the Level A score plus 1 if the contrast check recorded no issues,
  plus 1 if the list of tabindex issues is empty, plus a constant 2; its total is 15 and it
  is passed exactly when the score is at least 12.
\<close>

theorem wcag_scores:
  "\<exists>a aa. check_wcag_compliance acc = Inr \<lparr> level_a = a, level_aa = aa \<rparr>
     \<and> level_score a =
         (if lang_attribute acc \<noteq> ''Missing'' then 1 else 0)
         + (if without_alt (images acc) = 0 then 1 else 0)
         + (if \<not> heading_hierarchy_issues acc then 1 else 0)
         + (if total_inputs acc > 0 \<and> inputs_with_labels acc = total_inputs acc then 1 else 0)
         + 6
     \<and> level_total a = 10
     \<and> (level_passed a \<longleftrightarrow> level_score a \<ge> 8)
     \<and> level_score aa = level_score a
         + (if has_issues acc = Some False then 1 else 0)
         + (if tabindex_issues acc = [] then 1 else 0)
         + 2
     \<and> level_total aa = 15
     \<and> (level_passed aa \<longleftrightarrow> level_score aa \<ge> 12)"
proof -
  define pa :: int where "pa =
         (if lang_attribute acc \<noteq> ''Missing'' then 1 else 0)
         + (if without_alt (images acc) = 0 then 1 else 0)
         + (if \<not> heading_hierarchy_issues acc then 1 else 0)
         + (if total_inputs acc > 0 \<and> inputs_with_labels acc = total_inputs acc then 1 else 0)"
  define paa :: int where "paa = (if has_issues acc = Some False then 1 else 0)
         + (if tabindex_issues acc = [] then 1 else 0)"
  define sa where "sa = pa + 6"
  define saa where "saa = sa + paa + 2"
  have ra: "sa \<in> {6, 7, 8, 9, 10}"
    unfolding sa_def pa_def by simp
  have "paa \<in> {0, 1, 2}"
    unfolding paa_def by simp
  with ra have raa: "saa \<in> {8, 9, 10, 11, 12, 13, 14}"
    unfolding saa_def by auto
  obtain p where a: "wcag_level_of sa 10 = Inr \<lparr> level_score = sa, level_total = 10,
      level_percentage = p, level_passed = (8 \<le> sa) \<rparr>"
    using wcag_level_10 [OF ra] by blast
  obtain q where aa: "wcag_level_of saa 15 = Inr \<lparr> level_score = saa, level_total = 15,
      level_percentage = q, level_passed = (12 \<le> saa) \<rparr>"
    using wcag_level_15 [OF raa] by blast
  have step_a: "(let s1 = (if lang_attribute acc \<noteq> ''Missing'' then 1 else 0);
          s2 = (if without_alt (images acc) = 0 then s1 + 1 else s1);
          s3 = (if \<not> heading_hierarchy_issues acc then s2 + 1 else s2);
          s4 = (if total_inputs acc > 0 \<and> inputs_with_labels acc = total_inputs acc
                then s3 + 1 else s3) in s4 + 6) = sa"
    unfolding sa_def pa_def Let_def by simp
  have step_aa: "(let t1 = (if \<not> get_default (has_issues acc) True then sa + 1 else sa);
                 t2 = (if length (tabindex_issues acc) = 0 then t1 + 1 else t1)
             in t2 + 2) = saa"
    unfolding saa_def paa_def Let_def get_default_def
    by (simp split: option.splits)
  have eq: "check_wcag_compliance acc =
      (case wcag_level_of sa 10 of Inl e \<Rightarrow> Inl e
       | Inr a \<Rightarrow> (case wcag_level_of saa 15 of Inl e \<Rightarrow> Inl e
           | Inr aa \<Rightarrow> Inr \<lparr> level_a = a, level_aa = aa \<rparr>))"
    by (simp only: check_wcag_compliance_def Let_def step_a [unfolded Let_def]
        step_aa [unfolded Let_def])
  have "check_wcag_compliance acc = Inr \<lparr> level_a = \<lparr> level_score = sa, level_total = 10,
      level_percentage = p, level_passed = (8 \<le> sa) \<rparr>, level_aa = \<lparr> level_score = saa,
      level_total = 15, level_percentage = q, level_passed = (12 \<le> saa) \<rparr> \<rparr>"
    unfolding eq a aa by simp
  then show ?thesis
    unfolding saa_def sa_def pa_def paa_def by simp
qed

text \<open>
  On the findings of the minimal document (one image without alt, no headings, no inputs)
  Level A scores 8 and passes, Level AA scores 12 and passes.
\<close>

theorem wcag_scores_witness:
  "\<exists>a aa. check_wcag_compliance minimal_accessibility = Inr \<lparr> level_a = a, level_aa = aa \<rparr>
     \<and> level_score a = 8 \<and> level_passed a \<and> level_score aa = 12 \<and> level_passed aa"
proof -
  have "without_alt (check_screen_reader_support_images minimal_document) = 1"
    by (simp add: check_screen_reader_support_images_def minimal_document_def find_all_def
        named_def)
  with wcag_scores [of minimal_accessibility] show ?thesis
    by (fastforce simp add: minimal_accessibility_def)
qed

subsection \<open>Image and table censuses\<close>

lemma empty_alt_le_with_alt:
  "length (filter (\<lambda>img. get img ''alt'' = Some []) imgs)
     \<le> length (filter (\<lambda>img. get img ''alt'' \<noteq> None) imgs)"
  by (induction imgs) auto

text \<open>
  C9. For every document, the image alt-text taxonomy partitions the images exactly:
  \<open>with_alt + without_alt = total\<close>, and \<open>with_empty_alt \<le> with_alt\<close>.
\<close>

theorem images_partition:
  "with_alt (check_screen_reader_support_images soup)
      + without_alt (check_screen_reader_support_images soup)
      = images_total (check_screen_reader_support_images soup)
   \<and> with_empty_alt (check_screen_reader_support_images soup)
      \<le> with_alt (check_screen_reader_support_images soup)"
proof -
  define imgs where "imgs = find_all soup (named ''img'')"
  have part: "length (filter (\<lambda>img. get img ''alt'' \<noteq> None) imgs)
      + length (filter (\<lambda>img. get img ''alt'' = None) imgs) = length imgs"
    using sum_length_filter_compl [of "\<lambda>img. get img ''alt'' \<noteq> None" imgs] by simp
  have sub: "length (filter (\<lambda>img. get img ''alt'' = Some []) imgs)
      \<le> length (filter (\<lambda>img. get img ''alt'' \<noteq> None) imgs)"
    by (rule empty_alt_le_with_alt)
  from part sub show ?thesis
    by (simp add: check_screen_reader_support_images_def Let_def imgs_def)
qed

theorem images_partition_witness:
  "with_alt (check_screen_reader_support_images minimal_document) = 0
   \<and> without_alt (check_screen_reader_support_images minimal_document) = 1
   \<and> images_total (check_screen_reader_support_images minimal_document) = 1
   \<and> with_empty_alt (check_screen_reader_support_images minimal_document) = 0"
proof -
  have w: "without_alt (check_screen_reader_support_images minimal_document) = 1"
    by (simp add: check_screen_reader_support_images_def minimal_document_def find_all_def
        named_def)
  have t: "images_total (check_screen_reader_support_images minimal_document) = 1"
    by (simp add: check_screen_reader_support_images_def minimal_document_def find_all_def
        named_def)
  from w t images_partition [of minimal_document] show ?thesis by simp
qed

lemma analyze_table_counts:
  "data_tables (analyze_table t ta) + layout_tables (analyze_table t ta)
     = Suc (data_tables ta + layout_tables ta)"
  "with_headers ta \<le> data_tables ta
     \<Longrightarrow> with_headers (analyze_table t ta) \<le> data_tables (analyze_table t ta)"
  "tables_total (analyze_table t ta) = tables_total ta"
  by (simp_all add: analyze_table_def Let_def)

lemma analyze_tables_fold:
  assumes "with_headers ta \<le> data_tables ta"
  shows "data_tables (foldl (\<lambda>ta table. analyze_table table ta) ta ts)
       + layout_tables (foldl (\<lambda>ta table. analyze_table table ta) ta ts)
       = data_tables ta + layout_tables ta + length ts
     \<and> with_headers (foldl (\<lambda>ta table. analyze_table table ta) ta ts)
       \<le> data_tables (foldl (\<lambda>ta table. analyze_table table ta) ta ts)
     \<and> tables_total (foldl (\<lambda>ta table. analyze_table table ta) ta ts) = tables_total ta"
  using assms
proof (induction ts arbitrary: ta)
  case Nil
  then show ?case by simp
next
  case (Cons t ts)
  have "with_headers (analyze_table t ta) \<le> data_tables (analyze_table t ta)"
    using Cons.prems by (rule analyze_table_counts(2))
  from Cons.IH [OF this] show ?case
    by (simp add: analyze_table_counts(1) analyze_table_counts(3))
qed

text \<open>
  C10. For every document, the table analysis classifies each table as exactly one of data
  table or layout table, so \<open>data_tables + layout_tables = total\<close>; and every table counted
  in \<open>with_headers\<close> is counted as a data table, so \<open>with_headers \<le> data_tables\<close>.
\<close>

theorem tables_partition:
  "data_tables (analyze_tables soup) + layout_tables (analyze_tables soup)
     = tables_total (analyze_tables soup)
   \<and> with_headers (analyze_tables soup) \<le> data_tables (analyze_tables soup)"
proof -
  define ts where "ts = find_all soup (named ''table'')"
  define ta0 where "ta0 = \<lparr> tables_total = length ts, with_headers = 0, with_caption = 0,
     with_summary = 0, data_tables = 0, layout_tables = 0 \<rparr>"
  have "with_headers ta0 \<le> data_tables ta0" by (simp add: ta0_def)
  from analyze_tables_fold [OF this, of ts] show ?thesis
    by (simp add: analyze_tables_def Let_def ts_def [symmetric] ta0_def [symmetric])
      (simp add: ta0_def)
qed

theorem tables_partition_witness:
  "tables_total (analyze_tables two_tables_document) = 2
   \<and> data_tables (analyze_tables two_tables_document) = 1
   \<and> layout_tables (analyze_tables two_tables_document) = 1
   \<and> with_headers (analyze_tables two_tables_document) \<le> 1"
proof -
  have t: "tables_total (analyze_tables two_tables_document) = 2"
    by (simp add: analyze_tables_def two_tables_document_def find_all_def named_def
        analyze_table_def find_first_def get_default_def Let_def)
  have d: "data_tables (analyze_tables two_tables_document) = 1"
    by (simp add: analyze_tables_def two_tables_document_def find_all_def named_def
        analyze_table_def find_first_def get_default_def Let_def)
  from t d tables_partition [of two_tables_document] show ?thesis by simp
qed

subsection \<open>Floats\<close>

lemma round_half_even_of_int: "round_half_even (of_int k) = k"
  by (simp add: round_half_even_def)

lemma powi_neg_nat: "(2::real) powi (- int j) = 1 / 2 ^ j"
  by (simp add: power_int_def power_one_over inverse_eq_divide)

lemma fl_of_int:
  assumes "\<bar>n\<bar> < 2 ^ 53"
  shows "fl (of_int n) = Fin (of_int n)"
proof (cases "n = 0")
  case True
  then show ?thesis by (simp add: fl_def)
next
  case False
  define m where "m = nat \<bar>n\<bar>"
  have m: "m > 0" "m < 2 ^ 53" "\<bar>of_int n :: real\<bar> = of_nat m"
    using False assms by (auto simp: m_def)
  define k where "k = floorlog 2 m"
  have k1: "k \<ge> 1"
    using m(1) floorlog_eq_zero_iff [of 2 m] by (simp add: k_def Suc_le_eq)
  have k53: "k \<le> 53"
    unfolding k_def using m(2) by (intro floorlog_leI) simp_all
  define j where "j = 53 - k"
  have e: "ilog2 \<bar>of_int n\<bar> = int k - 1"
    unfolding m(3) using m(1) by (simp add: ilog2_def k_def)
  have emax: "max (int k - 1) (- 1022) - 52 = - int j"
    using k1 k53 by (simp add: j_def)
  have u: "(2::real) powi (max (ilog2 \<bar>of_int n\<bar>) (- 1022) - 52) = 1 / 2 ^ j"
    unfolding e emax by (rule powi_neg_nat)
  have q: "real_of_int n / (1 / 2 ^ j) = of_int (n * 2 ^ j)"
    by simp
  have big: "\<bar>real_of_int n\<bar> < 2 powi 1024"
  proof -
    have "\<bar>real_of_int n\<bar> < 2 ^ 53"
      using assms by (metis of_int_abs of_int_less_numeral_power_cancel_iff)
    also have "\<dots> < (2::real) ^ 1024"
      by (rule power_strict_increasing) simp_all
    finally show ?thesis by simp
  qed
  have nz: "real_of_int n \<noteq> 0" using False by simp
  show ?thesis
    using nz big
    by (simp only: fl_def Let_def u q round_half_even_of_int if_False)
       (simp add: not_le)
qed

lemma float_of_int_exact: "\<bar>n\<bar> < 2 ^ 53 \<Longrightarrow> float_of_int n = Inr (Fin (of_int n))"
  by (simp add: float_of_int_def fl_of_int)

subsection \<open>Score aggregation\<close>

text \<open>
  C7. In the core score aggregation the performance score starts at 100 with mutually
  exclusive load-time deductions (30 if the load time is above 3 s, else 15 if above 2 s,
  else 5 if above 1 s) and mutually exclusive size deductions (20 if the response size is
  above 2 MB, else 10 if above 1 MB), floored at 0; and the overall score is
  \<open>0.4 \<times> performance + 0.4 \<times> accessibility + 0.2 \<times> security\<close>, computed in floating point
  from left to right and rounded to one decimal. (The security score is an \<open>int\<close> within
  the range that converts to a float exactly; the security analyzer stores one between 0
  and 100.)
\<close>

theorem calculate_scores_formula:
  assumes "\<bar>get_default (security_score r) 0\<bar> < 2 ^ 53"
  shows "calculate_scores r =
     (let load_time = get_default (total_load_time r) (Fin 0);
          size_mb = get_default (response_size_mb r) (Fin 0);
          perf = max 0 (100
            - (if float_gt load_time (Fin 3) then 30
               else if float_gt load_time (Fin 2) then 15
               else if float_gt load_time (Fin 1) then 5 else 0)
            - (if float_gt size_mb (Fin 2) then 20
               else if float_gt size_mb (Fin 1) then 10 else 0));
          acc = get_default (level_aa_percentage r) (Fin 0);
          sec = get_default (security_score r) 0
      in Inr \<lparr> performance = perf, accessibility_score = acc, security = sec,
           overall = round1 (float_add
              (float_add (float_mul (Fin (of_int perf)) (fl (4 / 10)))
                         (float_mul acc (fl (4 / 10))))
              (float_mul (Fin (of_int sec)) (fl (2 / 10)))) \<rparr>)"
proof -
  define load_time where "load_time = get_default (total_load_time r) (Fin 0)"
  define size_mb where "size_mb = get_default (response_size_mb r) (Fin 0)"
  define p1 :: int where "p1 = (if float_gt load_time (Fin 3) then 100 - 30
                         else if float_gt load_time (Fin 2) then 100 - 15
                         else if float_gt load_time (Fin 1) then 100 - 5
                         else 100)"
  define p2 :: int where "p2 = (if float_gt size_mb (Fin 2) then p1 - 20
                         else if float_gt size_mb (Fin 1) then p1 - 10
                         else p1)"
  have p2_eq: "p2 = 100
            - (if float_gt load_time (Fin 3) then 30
               else if float_gt load_time (Fin 2) then 15
               else if float_gt load_time (Fin 1) then 5 else 0)
            - (if float_gt size_mb (Fin 2) then 20
               else if float_gt size_mb (Fin 1) then 10 else 0)"
    unfolding p2_def p1_def by simp
  have "50 \<le> p2" "p2 \<le> 100"
    unfolding p2_eq by simp_all
  then have "\<bar>max 0 p2\<bar> < 2 ^ 53" by simp
  then have pf: "float_of_int (max 0 p2) = Inr (Fin (of_int (max 0 p2)))"
    by (rule float_of_int_exact)
  have sf: "float_of_int (get_default (security_score r) 0)
      = Inr (Fin (of_int (get_default (security_score r) 0)))"
    using assms by (rule float_of_int_exact)
  have "calculate_scores r =
      Inr \<lparr> performance = max 0 p2,
            accessibility_score = get_default (level_aa_percentage r) (Fin 0),
            security = get_default (security_score r) 0,
            overall = round1 (float_add
              (float_add (float_mul (Fin (of_int (max 0 p2))) (fl (4 / 10)))
                         (float_mul (get_default (level_aa_percentage r) (Fin 0)) (fl (4 / 10))))
              (float_mul (Fin (of_int (get_default (security_score r) 0))) (fl (2 / 10)))) \<rparr>"
    unfolding calculate_scores_def Let_def
      load_time_def [symmetric] size_mb_def [symmetric] p1_def [symmetric] p2_def [symmetric]
      pf sf
    by simp
  then show ?thesis
    unfolding Let_def load_time_def [symmetric] size_mb_def [symmetric] p2_eq [symmetric]
    by simp
qed

lemma fl_exact_values:
  "fl (5 / 2) = Fin (5 / 2)" "fl (3 / 2) = Fin (3 / 2)"
  by (simp_all add: float_eval)

theorem calculate_scores_formula_witness:
  "calculate_scores slow_page_results =
     Inr \<lparr> performance = 75, accessibility_score = fl (667 / 10), security = 50,
           overall = fl (667 / 10) \<rparr>"
proof -
  have ov: "round1 (float_add
      (float_add (float_mul (Fin 75) (fl (4 / 10))) (float_mul (fl (667 / 10)) (fl (4 / 10))))
      (float_mul (Fin 50) (fl (2 / 10)))) = fl (667 / 10)"
    by (simp add: float_eval)
  have "\<bar>get_default (security_score slow_page_results) 0\<bar> < 2 ^ 53"
    by (simp add: slow_page_results_def get_default_def)
  from calculate_scores_formula [OF this] show ?thesis
    using ov by (simp add: slow_page_results_def get_default_def fl_exact_values Let_def)
qed

subsection \<open>CSS color extraction\<close>

lemmas css_eval = extract_css_colors_def background_patterns_def text_patterns_def
  link_patterns_def background_match_def color_match_def link_match_def block_match_def
  startswith_def after_def value_match_def letters_match_def is_space_def color_char_def
  is_digit_def is_alpha_def strip_def Let_def

text \<open>
  C6, as stated, fails: the declaration \<^verbatim>\<open>color: transparent\<close> puts the keyword
  \<open>transparent\<close> into the list of text colors.
\<close>

theorem text_colors_keep_transparent:
  "''transparent'' \<in> set (text_colors (extract_css_colors ''color: transparent''))"
  by (simp add: css_eval)

text \<open>
  C6, amended. For every input CSS text, each of the three lists (background, text, link)
  contains no duplicate entries; the background list contains none of the keyword values
  \<open>transparent\<close>, \<open>inherit\<close>, \<open>initial\<close>; the text list and the link list contain neither
  \<open>inherit\<close> nor \<open>initial\<close> (their filters do not name \<open>transparent\<close>).
\<close>

theorem extract_css_colors_lists:
  "distinct (background_colors (extract_css_colors css))
   \<and> distinct (text_colors (extract_css_colors css))
   \<and> distinct (link_colors (extract_css_colors css))
   \<and> ''transparent'' \<notin> set (background_colors (extract_css_colors css))
   \<and> ''inherit'' \<notin> set (background_colors (extract_css_colors css))
   \<and> ''initial'' \<notin> set (background_colors (extract_css_colors css))
   \<and> ''inherit'' \<notin> set (text_colors (extract_css_colors css))
   \<and> ''initial'' \<notin> set (text_colors (extract_css_colors css))
   \<and> ''inherit'' \<notin> set (link_colors (extract_css_colors css))
   \<and> ''initial'' \<notin> set (link_colors (extract_css_colors css))"
  by (simp add: extract_css_colors_def Let_def)

text \<open>
  The color \<^verbatim>\<open>#fff\<close> is found twice as a text color and once more as a link color, and
  \<open>inherit\<close> is dropped.
\<close>

theorem extract_css_colors_lists_witness:
  "extract_css_colors ''a { color: inherit; color: #fff } p { color: #fff; background: #000 }''
     = \<lparr> background_colors = [''#000''], text_colors = [''#fff''], link_colors = [''#fff''] \<rparr>
   \<and> distinct (text_colors (extract_css_colors
         ''a { color: inherit; color: #fff } p { color: #fff; background: #000 }''))"
proof -
  have "extract_css_colors
      ''a { color: inherit; color: #fff } p { color: #fff; background: #000 }''
     = \<lparr> background_colors = [''#000''], text_colors = [''#fff''], link_colors = [''#fff''] \<rparr>"
    by (simp add: css_eval)
  with extract_css_colors_lists
    [of "''a { color: inherit; color: #fff } p { color: #fff; background: #000 }''"]
  show ?thesis by simp
qed

subsection \<open>Rounding keeps bounds\<close>



lemma two_powi_less_D: "(2::real) powi a \<le> x \<Longrightarrow> x < 2 powi b \<Longrightarrow> a < b"
proof (rule ccontr)
  assume h: "2 powi a \<le> x" "x < 2 powi b" and "\<not> a < b"
  then have "b \<le> a" by simp
  then have "(2::real) powi b \<le> 2 powi a"
    by (intro power_int_increasing) simp_all
  with h show False by simp
qed











subsection \<open>Contrast ratio\<close>













lemmas int16_eval = int16_def int_space_def hex_value_def ascii_lower_def

lemma int16_values: "int16 ''ff'' = Inr 255" "int16 ''00'' = Inr 0" "int16 ''gg'' = Inl ValueError"
  by (simp_all add: int16_eval)

lemma channel_values: "channel 0 = Inr (Fin 0)" "channel 255 = Inr (Fin 1)"
  by (simp_all add: channel_def float_of_int_def float_eval)

lemma parse_black: "parse_color ''#000000'' = Inr (Fin 0, Fin 0, Fin 0)"
  by (simp add: parse_color_def startswith_def channels3_def int16_values channel_values)

lemma parse_white: "parse_color ''#ffffff'' = Inr (Fin 1, Fin 1, Fin 1)"
  by (simp add: parse_color_def startswith_def channels3_def int16_values channel_values)

lemma adjust_black: "adjust_color_value (Fin 0) = Inr (Fin 0)"
  by (simp add: adjust_color_value_def literal_def float_le_def float_ge_def float_eval)

lemma adjust_white: "adjust_color_value (Fin 1) = Inr (Fin 1)"
  by (simp add: adjust_color_value_def literal_def float_le_def float_ge_def float_pow_def float_eval)

lemma luminance_black: "get_luminance (Fin 0) (Fin 0) (Fin 0) = Inr (Fin 0)"
  by (simp add: get_luminance_def adjust_black literal_def float_eval)

lemma luminance_white: "get_luminance (Fin 1) (Fin 1) (Fin 1) = Inr (Fin 1)"
  by (simp add: get_luminance_def adjust_white literal_def float_eval)

lemma ratio_black_white:
  "(if float_gt (Fin 0) (Fin 1)
    then float_truediv (float_add (Fin 0) (literal (5 / 100))) (float_add (Fin 1) (literal (5 / 100)))
    else float_truediv (float_add (Fin 1) (literal (5 / 100))) (float_add (Fin 0) (literal (5 / 100))))
   = Inr (Fin 21)"
  by (simp add: literal_def float_eval)

text \<open>
  C8. \<^verbatim>\<open>calculate_contrast_ratio("#000000", "#ffffff")\<close> returns exactly 21.0: every
  rounding on the way is exact or lands on the expected double (\<open>1.0 + 0.055\<close> rounds to
  the double of \<open>1.055\<close>, so the base of the power is 1.0; the three weights sum to 1.0;
  \<open>1.05 / 0.05\<close> rounds to 21.0).
\<close>

theorem contrast_black_white:
  "calculate_contrast_ratio ''#000000'' ''#ffffff'' = Inr (Fin 21)"
  unfolding calculate_contrast_ratio_def parse_black parse_white
  by (simp only: sum.case prod.case luminance_black luminance_white ratio_black_white)












lemma zeros_value: "foldl (\<lambda>acc c. 10 * acc + digit_value c) 0 (replicate n CHR ''0'') = 0"
  by (induction n) (simp_all add: digit_value_def get_default_def)

lemma int10_limit:
  "int10 (replicate 4300 CHR ''0'') = Inr 0" "int10 (replicate 4301 CHR ''0'') = Inl ValueError"
  by (simp_all add: int10_def max_str_digits_def zeros_value)









end
